theory Spec2Isabelle
  imports Main
begin

section \<open>Values, messages and exceptions\<close>

text \<open>
  The model covers \<^verbatim>\<open>happypanda/server/core/server.py\<close> (classes \<^verbatim>\<open>ClientHandler\<close>
  and \<^verbatim>\<open>HPServer\<close>) and \<^verbatim>\<open>happypanda/server/interface/gallery.py\<close>.
  Byte strings are character lists. A decoded JSON value is what \<^verbatim>\<open>json.loads\<close> yields:
  \<^verbatim>\<open>None\<close>, a bool, a number, a \<^verbatim>\<open>str\<close>, a \<^verbatim>\<open>list\<close> or a \<^verbatim>\<open>dict\<close>. A dict is an
  association list in iteration order; a Python dict has no repeated key.
\<close>

type_synonym bytes = string

datatype json =
    JNull
  | JBool bool
  | JNum int
  | JStr string
  | JList "json list"
  | JObj "(string \<times> json) list"

text \<open>
  The exceptions that the code can raise. \<^verbatim>\<open>InvalidMessage(where, msg)\<close> and
  \<^verbatim>\<open>CoreError\<close> live in \<^verbatim>\<open>happypanda.common.exceptions\<close>; \<^verbatim>\<open>TypeError\<close>,
  \<^verbatim>\<open>KeyError\<close> and \<^verbatim>\<open>AssertionError\<close> are Python's own.
\<close>

datatype exn =
    InvalidMessage string string
  | CoreError int string
  | TypeError string
  | KeyError string
  | AssertionError

text \<open>The message classes of \<^verbatim>\<open>happypanda.common.message\<close> that the server builds.\<close>

datatype core_message =
    Message string
  | Error int string
  | Function string core_message
  | List string "core_message list"

text \<open>What a call \<^verbatim>\<open>func(**func_args)\<close> does: it returns a \<^verbatim>\<open>CoreMessage\<close>, returns
  some other object, or raises.\<close>

datatype outcome = Returns core_message | ReturnsOther | Raises exn

text \<open>A function object of the interface: its \<^verbatim>\<open>__name__\<close>, its
  \<^verbatim>\<open>__code__.co_varnames\<close> and its behaviour on keyword arguments.\<close>

record func =
  func_name :: string
  co_varnames :: "string list"
  func_body :: "(string \<times> json) list \<Rightarrow> outcome"

text \<open>
  What the server module imports from modules that are not part of the modelled files:
  \<^verbatim>\<open>constants.postfix\<close>, \<^verbatim>\<open>constants.server_ready\<close>, \<^verbatim>\<open>utils.convert_to_json\<close>,
  the result of \<^verbatim>\<open>getmembers(interface, isfunction)\<close>, the text encoding used by
  \<^verbatim>\<open>serialize\<close>, the \<^verbatim>\<open>code\<close> attribute of \<^verbatim>\<open>InvalidMessage\<close> and Python's
  \<^verbatim>\<open>str\<close> of a value that is not a string.
\<close>

record env =
  postfix :: bytes
  server_ready :: bool
  convert_to_json :: "bytes \<Rightarrow> string \<Rightarrow> exn + json"
  members :: "(string \<times> func) list"
  dumps :: "json \<Rightarrow> bytes"
  invalid_message_code :: int
  py_str :: "json \<Rightarrow> string"

text \<open>What can be observed of one connection: the byte strings handed to
  \<^verbatim>\<open>utils.convert_to_json\<close>, the interface functions called with their keyword
  arguments, and the byte strings passed to \<^verbatim>\<open>client.sendall\<close>.\<close>

datatype event =
    Decode bytes
  | Invoke string "(string \<times> json) list"
  | Sendall bytes

fun decoded :: "event list \<Rightarrow> bytes list" where
  "decoded [] = []"
| "decoded (Decode b # evs) = b # decoded evs"
| "decoded (_ # evs) = decoded evs"

fun invoked :: "event list \<Rightarrow> (string \<times> (string \<times> json) list) list" where
  "invoked [] = []"
| "invoked (Invoke n a # evs) = (n, a) # invoked evs"
| "invoked (_ # evs) = invoked evs"


section \<open>Serialisation\<close>

text \<open>
  Modelled from the spec: \<^verbatim>\<open>happypanda.common.message\<close> is missing, so the logical
  content of a serialised message follows the spec's wire schemas: the wait message is
  \<^verbatim>\<open>{"type":"wait"}\<close>, an error is \<^verbatim>\<open>{"type":"error","code":c,"message":m}\<close>, an
  entry of a function list is \<^verbatim>\<open>{"fname":name,"data":result}\<close> and the list itself is
  \<^verbatim>\<open>{"type":"function","data":[...]}\<close>.
\<close>

fun json_of :: "core_message \<Rightarrow> json" where
  "json_of (Message t) = JObj [(''type'', JStr t)]"
| "json_of (Error c m) = JObj [(''type'', JStr ''error''), (''code'', JNum c), (''message'', JStr m)]"
| "json_of (Function n m) = JObj [(''fname'', JStr n), (''data'', json_of m)]"
| "json_of (List t ms) = JObj [(''type'', JStr t), (''data'', JList (map json_of ms))]"

definition serialize :: "env \<Rightarrow> core_message \<Rightarrow> bytes" where
  "serialize env m = dumps env (json_of m)"

section \<open>ClientHandler\<close>

text \<open>\<^verbatim>\<open>_special_functions\<close> and the class attribute \<^verbatim>\<open>api\<close>: a dict comprehension
  over the members, so a later member replaces an earlier one of the same name.\<close>

definition special_functions :: "string list" where
  "special_functions = [''interactive'']"

definition api :: "env \<Rightarrow> string \<Rightarrow> func option" where
  "api env = map_of (rev (filter (\<lambda>x. fst x \<notin> set special_functions) (members env)))"

record client_handler =
  address :: string
  stopped :: bool

text \<open>\<^verbatim>\<open>ClientHandler.sendall\<close> and \<^verbatim>\<open>send\<close>: the message, then the postfix. The
  socket is taken to accept every write.\<close>

definition send :: "env \<Rightarrow> bytes \<Rightarrow> event list" where
  "send env msg = [Sendall msg, Sendall (postfix env)]"

subsection \<open>Python's operations on decoded values\<close>

text \<open>\<^verbatim>\<open>"{}".format(x)\<close>: a string is inserted as it is, any other value through
  Python's \<^verbatim>\<open>str\<close>.\<close>

definition format_arg :: "env \<Rightarrow> json \<Rightarrow> string" where
  "format_arg env x = (case x of JStr s \<Rightarrow> s | _ \<Rightarrow> py_str env x)"

definition quoted :: "string \<Rightarrow> string" where
  "quoted s = CHR 0x27 # s @ [CHR 0x27]"

text \<open>Iteration: a list yields its elements, a dict its keys, a string its
  characters. The code iterates only after \<^verbatim>\<open>_expect_iterable\<close> has accepted the value.\<close>

fun py_iter :: "json \<Rightarrow> json list" where
  "py_iter (JList xs) = xs"
| "py_iter (JObj kvs) = map (\<lambda>kv. JStr (fst kv)) kvs"
| "py_iter (JStr s) = map (\<lambda>c. JStr [c]) s"
| "py_iter _ = []"

text \<open>\<^verbatim>\<open>len(x)\<close>: defined on lists, dicts and strings.\<close>

fun py_len :: "json \<Rightarrow> exn + nat" where
  "py_len (JList xs) = Inr (length xs)"
| "py_len (JObj kvs) = Inr (length kvs)"
| "py_len (JStr s) = Inr (length s)"
| "py_len _ = Inl (TypeError ''object has no len()'')"

text \<open>\<^verbatim>\<open>x[key]\<close> with a string key: only a dict has string keys.\<close>

fun py_getitem :: "json \<Rightarrow> string \<Rightarrow> exn + json" where
  "py_getitem (JObj kvs) k = (case map_of kvs k of Some v \<Rightarrow> Inr v | None \<Rightarrow> Inl (KeyError k))"
| "py_getitem (JList xs) k = Inl (TypeError ''list indices must be integers or slices, not str'')"
| "py_getitem (JStr s) k = Inl (TypeError ''string indices must be integers'')"
| "py_getitem _ k = Inl (TypeError ''object is not subscriptable'')"

text \<open>\<^verbatim>\<open>function_name in self.api\<close> followed by \<^verbatim>\<open>self.api[function_name]\<close>: the
  key is hashed first, and a list or a dict is unhashable. The keys of \<^verbatim>\<open>api\<close> are
  strings, so no other kind of value is found.\<close>

fun api_lookup :: "env \<Rightarrow> json \<Rightarrow> exn + func option" where
  "api_lookup env (JStr n) = Inr (api env n)"
| "api_lookup env (JList xs) = Inl (TypeError ''unhashable type: list'')"
| "api_lookup env (JObj kvs) = Inl (TypeError ''unhashable type: dict'')"
| "api_lookup env _ = Inr None"

fun dict_items :: "json \<Rightarrow> (string \<times> json) list" where
  "dict_items (JObj kvs) = kvs"
| "dict_items _ = []"

subsection \<open>The key checks\<close>

text \<open>The tuples \<^verbatim>\<open>root_keys\<close> and \<^verbatim>\<open>function_keys\<close> of \<^verbatim>\<open>parse\<close>; a tuple is
  iterated and searched like a list.\<close>

definition root_keys :: json where
  "root_keys = JList [JStr ''name'', JStr ''data'']"

definition function_keys :: json where
  "function_keys = JList [JStr ''fname'']"

definition expect_iterable :: "env \<Rightarrow> string \<Rightarrow> json \<Rightarrow> exn + unit" where
  "expect_iterable env where' data =
     (case data of
        JList _ \<Rightarrow> Inr ()
      | JObj _ \<Rightarrow> Inr ()
      | _ \<Rightarrow> Inl (InvalidMessage where' (''A list/dict was expected, not: '' @ format_arg env data)))"

text \<open>The second loop of \<^verbatim>\<open>_check_required_key\<close>. The message is a template with one
  hole, kept as the text before and after the hole.\<close>

fun required_loop :: "env \<Rightarrow> string \<Rightarrow> string \<times> string \<Rightarrow> json \<Rightarrow> json list \<Rightarrow> exn + unit" where
  "required_loop env where' msg required_keys [] = Inr ()"
| "required_loop env where' msg required_keys (x # xs) =
     (if x \<notin> set (py_iter required_keys)
      then Inl (InvalidMessage where' (fst msg @ format_arg env x @ snd msg))
      else required_loop env where' msg required_keys xs)"

definition check_required_key ::
  "env \<Rightarrow> string \<Rightarrow> string \<times> string \<Rightarrow> json \<Rightarrow> json \<Rightarrow> exn + unit" where
  "check_required_key env where' msg required_keys data =
     (case expect_iterable env where' required_keys of
        Inl e \<Rightarrow> Inl e
      | Inr _ \<Rightarrow>
          (case expect_iterable env where' data of
             Inl e \<Rightarrow> Inl e
           | Inr _ \<Rightarrow> required_loop env where' msg required_keys (py_iter data)))"

text \<open>\<^verbatim>\<open>_check_missing\<close> passes \<^verbatim>\<open>data\<close> as the required keys and \<^verbatim>\<open>keys\<close> as the
  data, as the source does.\<close>

definition check_missing :: "env \<Rightarrow> string \<Rightarrow> string \<Rightarrow> json \<Rightarrow> json \<Rightarrow> exn + unit" where
  "check_missing env where' msg keys data =
     check_required_key env where' (msg @ '' missing '' @ [CHR 0x27], [CHR 0x27] @ '' key'') data keys"

definition check_unknown :: "env \<Rightarrow> string \<Rightarrow> string \<Rightarrow> json \<Rightarrow> json \<Rightarrow> exn + unit" where
  "check_unknown env where' msg keys data =
     (case py_len data of
        Inl e \<Rightarrow> Inl e
      | Inr n \<Rightarrow>
          (case py_len keys of
             Inl e \<Rightarrow> Inl e
           | Inr k \<Rightarrow>
               if n \<noteq> k
               then check_required_key env where'
                      (msg @ '' contains unknown key '' @ [CHR 0x27], [CHR 0x27]) keys data
               else Inr ()))"

definition check_both :: "env \<Rightarrow> string \<Rightarrow> string \<Rightarrow> json \<Rightarrow> json \<Rightarrow> exn + unit" where
  "check_both env where' msg keys data =
     (case check_missing env where' msg keys data of
        Inl e \<Rightarrow> Inl e
      | Inr _ \<Rightarrow> check_unknown env where' msg keys data)"

subsection \<open>parse\<close>

text \<open>The body of the loop over \<^verbatim>\<open>msg_data\<close>: the checks on one function dict \<^verbatim>\<open>f\<close>
  and the tuple appended to \<^verbatim>\<open>function_tuples\<close>.\<close>

definition parse_function ::
  "env \<Rightarrow> string \<Rightarrow> json \<Rightarrow> exn + (func \<times> (string \<times> json) list)" where
  "parse_function env where' f =
     (case check_missing env where' ''Function message'' function_keys f of
        Inl e \<Rightarrow> Inl e
      | Inr _ \<Rightarrow>
          (case py_getitem f ''fname'' of
             Inl e \<Rightarrow> Inl e
           | Inr function_name \<Rightarrow>
               (case api_lookup env function_name of
                  Inl e \<Rightarrow> Inl e
                | Inr None \<Rightarrow>
                    Inl (InvalidMessage where'
                          (''Function not found: '' @ quoted (format_arg env function_name)))
                | Inr (Some fn) \<Rightarrow>
                    (let func_args = filter (\<lambda>arg. JStr arg \<notin> set (py_iter function_keys))
                                       (map fst (dict_items f))
                     in case find (\<lambda>arg. arg \<notin> set (co_varnames fn)) func_args of
                          Some arg \<Rightarrow>
                            Inl (InvalidMessage where'
                                  (''Unexpected argument in function ''
                                   @ quoted (format_arg env function_name)
                                   @ '': '' @ quoted arg))
                        | None \<Rightarrow>
                            Inr (fn, concat (map (\<lambda>x. case map_of (dict_items f) x of
                                                        Some v \<Rightarrow> [(x, v)] | None \<Rightarrow> [])
                                               func_args))))))"

fun parse_functions ::
  "env \<Rightarrow> string \<Rightarrow> json list \<Rightarrow> exn + (func \<times> (string \<times> json) list) list" where
  "parse_functions env where' [] = Inr []"
| "parse_functions env where' (f # fs) =
     (case parse_function env where' f of
        Inl e \<Rightarrow> Inl e
      | Inr t \<Rightarrow>
          (case parse_functions env where' fs of
             Inl e \<Rightarrow> Inl e
           | Inr ts \<Rightarrow> Inr (t # ts)))"

definition parse :: "env \<Rightarrow> bytes \<Rightarrow> exn + (func \<times> (string \<times> json) list) list" where
  "parse env data =
     (let where' = ''Message parsing'' in
      case convert_to_json env data where' of
        Inl e \<Rightarrow> Inl e
      | Inr j_data \<Rightarrow>
          (case check_both env where' ''JSON dict'' root_keys j_data of
             Inl e \<Rightarrow> Inl e
           | Inr _ \<Rightarrow>
               (case py_getitem j_data ''data'' of
                  Inl e \<Rightarrow> Inl e
                | Inr msg_data \<Rightarrow>
                    (case msg_data of
                       JList fs \<Rightarrow> parse_functions env where' fs
                     | _ \<Rightarrow> Inl (InvalidMessage where'
                                  (''No list of function objects found in '' @ quoted ''data''))))))"

subsection \<open>advance\<close>

text \<open>\<^verbatim>\<open>CoreError\<close> and its subclasses, with their \<^verbatim>\<open>code\<close> and \<^verbatim>\<open>msg\<close>
  attributes.

  Modelled from the spec: \<^verbatim>\<open>happypanda.common.exceptions\<close> is missing; by the spec's
  error taxonomy a protocol error is caught at the dispatch boundary and answered with an
  error message that describes the violation, so \<^verbatim>\<open>InvalidMessage\<close> is a
  \<^verbatim>\<open>CoreError\<close> whose \<^verbatim>\<open>msg\<close> is its second argument.\<close>

fun is_CoreError :: "exn \<Rightarrow> bool" where
  "is_CoreError (InvalidMessage w m) = True"
| "is_CoreError (CoreError c m) = True"
| "is_CoreError _ = False"

fun exn_code :: "env \<Rightarrow> exn \<Rightarrow> int" where
  "exn_code env (CoreError c m) = c"
| "exn_code env _ = invalid_message_code env"

fun exn_msg :: "exn \<Rightarrow> string" where
  "exn_msg (InvalidMessage w m) = m"
| "exn_msg (CoreError c m) = m"
| "exn_msg (TypeError m) = m"
| "exn_msg (KeyError m) = m"
| "exn_msg AssertionError = []"

definition on_error :: "env \<Rightarrow> exn \<Rightarrow> event list \<times> exn option" where
  "on_error env exception =
     (if is_CoreError exception
      then (send env (serialize env (Error (exn_code env exception) (exn_msg exception))), None)
      else ([], Some AssertionError))"

definition on_wait :: "env \<Rightarrow> event list" where
  "on_wait env = send env (serialize env (Message ''wait''))"

text \<open>The loop of \<^verbatim>\<open>advance\<close> over the parsed tuples, with \<^verbatim>\<open>function_list\<close> as the
  accumulator. The result is the calls made and either the exception that ended the loop
  or the finished list.\<close>

fun call_functions ::
  "(func \<times> (string \<times> json) list) list \<Rightarrow> core_message list
     \<Rightarrow> event list \<times> (exn + core_message list)" where
  "call_functions [] function_list = ([], Inr function_list)"
| "call_functions ((fn, func_args) # functions) function_list =
     (case func_body fn func_args of
        Raises e \<Rightarrow> ([Invoke (func_name fn) func_args], Inl e)
      | ReturnsOther \<Rightarrow> ([Invoke (func_name fn) func_args], Inl AssertionError)
      | Returns msg \<Rightarrow>
          (case call_functions functions (function_list @ [Function (func_name fn) msg]) of
             (evs, r) \<Rightarrow> (Invoke (func_name fn) func_args # evs, r)))"

text \<open>The \<^verbatim>\<open>except exceptions.CoreError\<close> clause: a core error is answered, any
  other exception leaves \<^verbatim>\<open>advance\<close>.\<close>

definition except_CoreError :: "env \<Rightarrow> event list \<Rightarrow> exn \<Rightarrow> event list \<times> exn option" where
  "except_CoreError env evs e =
     (if is_CoreError e
      then (case on_error env e of (evs', r) \<Rightarrow> (evs @ evs', r))
      else (evs, Some e))"

definition advance :: "env \<Rightarrow> bytes \<Rightarrow> event list \<times> exn option" where
  "advance env buffer =
     (if server_ready env then
        (case parse env buffer of
           Inl e \<Rightarrow> except_CoreError env [Decode buffer] e
         | Inr functions \<Rightarrow>
             (case call_functions functions [] of
                (evs, Inl e) \<Rightarrow> except_CoreError env (Decode buffer # evs) e
              | (evs, Inr function_list) \<Rightarrow>
                  (Decode buffer # evs @ send env (serialize env (List ''function'' function_list)),
                   None)))
      else (on_wait env, None))"

definition is_active :: "client_handler \<Rightarrow> bool" where
  "is_active handler = (\<not> stopped handler)"

section \<open>HPServer\<close>

text \<open>What \<^verbatim>\<open>client.recv\<close> does on successive calls: it returns bytes (none when the
  peer has closed) or raises \<^verbatim>\<open>socket.error\<close>. A script that is used up stands for a
  peer that has closed.\<close>

datatype recv = Recv bytes | RecvError

datatype ending = Disconnected | Inactive | SocketError | Uncaught exn

definition endswith :: "bytes \<Rightarrow> bytes \<Rightarrow> bool" where
  "endswith buffer suffix = (take (length suffix) (rev buffer) = rev suffix)"

text \<open>The head of the loop body of \<^verbatim>\<open>_handle\<close>: either the loop ends, or it goes on
  to \<^verbatim>\<open>recv\<close> with the buffer given.\<close>

definition dispatch :: "env \<Rightarrow> client_handler \<Rightarrow> bytes \<Rightarrow> event list \<times> (ending + bytes)" where
  "dispatch env handler buffer =
     (if endswith buffer (postfix env) then
        (if is_active handler then
           (case advance env buffer of
              (evs, Some e) \<Rightarrow> (evs, Inl (Uncaught e))
            | (evs, None) \<Rightarrow> (evs, Inr []))
         else ([], Inl Inactive))
      else ([], Inr buffer))"

fun handle_loop :: "env \<Rightarrow> client_handler \<Rightarrow> bytes \<Rightarrow> recv list \<Rightarrow> event list \<times> ending" where
  "handle_loop env handler buffer [] =
     (case dispatch env handler buffer of
        (evs, Inl r) \<Rightarrow> (evs, r)
      | (evs, Inr buffer') \<Rightarrow> (evs, Disconnected))"
| "handle_loop env handler buffer (r # script) =
     (case dispatch env handler buffer of
        (evs, Inl r) \<Rightarrow> (evs, r)
      | (evs, Inr buffer') \<Rightarrow>
          (case r of
             RecvError \<Rightarrow> (evs, SocketError)
           | Recv bs \<Rightarrow>
               if bs = [] then (evs, Disconnected)
               else (case handle_loop env handler (buffer' @ bs) script of
                       (evs', r') \<Rightarrow> (evs @ evs', r'))))"

definition handle :: "env \<Rightarrow> string \<Rightarrow> recv list \<Rightarrow> event list \<times> ending" where
  "handle env addr script = handle_loop env \<lparr>address = addr, stopped = False\<rparr> [] script"

section \<open>utils.convert_to_json\<close>

text \<open>Modelled from the spec: \<^verbatim>\<open>utils.convert_to_json\<close> is missing. By the spec the
  receiver accumulates bytes until the tail of the buffer equals the delimiter and then
  strips it before decoding, and the input of the decode step is the frame payload with
  the delimiter already stripped. \<^verbatim>\<open>_handle\<close>, \<^verbatim>\<open>advance\<close> and \<^verbatim>\<open>parse\<close> pass the
  buffer on unchanged, so the stripping is this function's: it removes the delimiter from
  the tail of its argument and hands the rest to the JSON decoder \<open>loads\<close>.\<close>

definition strip_postfix :: "bytes \<Rightarrow> bytes \<Rightarrow> bytes" where
  "strip_postfix suffix data =
     (if endswith data suffix then take (length data - length suffix) data else data)"

definition convert_to_json_spec ::
  "bytes \<Rightarrow> (bytes \<Rightarrow> string \<Rightarrow> exn + json) \<Rightarrow> bytes \<Rightarrow> string \<Rightarrow> exn + json" where
  "convert_to_json_spec suffix loads data where' = loads (strip_postfix suffix data) where'"

section \<open>The interface functions of gallery.py\<close>

text \<open>Each function has parameters only, no local variable, so its \<^verbatim>\<open>co_varnames\<close> are
  its parameter names, and each returns \<^verbatim>\<open>message.Message("works")\<close>. Every parameter
  has a default, so a call with keyword arguments fails only on a keyword that is not a
  parameter, with Python's \<^verbatim>\<open>TypeError\<close>.\<close>

definition keyword_call :: "string list \<Rightarrow> outcome \<Rightarrow> (string \<times> json) list \<Rightarrow> outcome" where
  "keyword_call params result kwargs =
     (case find (\<lambda>k. k \<notin> set params) (map fst kwargs) of
        Some k \<Rightarrow> Raises (TypeError (''got an unexpected keyword argument '' @ quoted k))
      | None \<Rightarrow> result)"

definition fetch_galleries :: func where
  "fetch_galleries =
     \<lparr>func_name = ''fetch_galleries'', co_varnames = [''gallery_ids''],
      func_body = keyword_call [''gallery_ids''] (Returns (Message ''works''))\<rparr>"

definition gallery_view :: func where
  "gallery_view =
     \<lparr>func_name = ''gallery_view'',
      co_varnames = [''page'', ''gallery_limit'', ''search_filter'', ''list_id'', ''gallery_filter''],
      func_body =
        keyword_call [''page'', ''gallery_limit'', ''search_filter'', ''list_id'', ''gallery_filter'']
          (Returns (Message ''works''))\<rparr>"

definition add_gallery :: func where
  "add_gallery =
     \<lparr>func_name = ''add_gallery'', co_varnames = [''galleries'', ''paths''],
      func_body = keyword_call [''galleries'', ''paths''] (Returns (Message ''works''))\<rparr>"

definition scan_gallery :: func where
  "scan_gallery =
     \<lparr>func_name = ''scan_gallery'', co_varnames = [''paths'', ''add_after'', ''ignore_exist''],
      func_body = keyword_call [''paths'', ''add_after'', ''ignore_exist''] (Returns (Message ''works''))\<rparr>"

section \<open>Requests\<close>

text \<open>The request schema as predicates on decoded values; they say which inputs a
  statement is about. A function call is an object whose \<^verbatim>\<open>fname\<close> is a string; a
  request is an object with exactly the keys \<^verbatim>\<open>name\<close> and \<^verbatim>\<open>data\<close> whose
  \<^verbatim>\<open>data\<close> is a list, and \<open>request_calls\<close> yields that list.\<close>

definition is_call :: "json \<Rightarrow> bool" where
  "is_call f =
     (case f of
        JObj kvs \<Rightarrow> (case map_of kvs ''fname'' of Some (JStr n) \<Rightarrow> True | _ \<Rightarrow> False)
      | _ \<Rightarrow> False)"

definition request_calls :: "json \<Rightarrow> json list option" where
  "request_calls j =
     (case j of
        JObj kvs \<Rightarrow>
          if distinct (map fst kvs) \<and> set (map fst kvs) = {''name'', ''data''}
          then (case map_of kvs ''data'' of Some (JList fs) \<Rightarrow> Some fs | _ \<Rightarrow> None)
          else None
      | _ \<Rightarrow> None)"

text \<open>For a parsed tuple \<^verbatim>\<open>(func, func_args)\<close>: the event of calling it, what the call
  does, and the entry that \<^verbatim>\<open>advance\<close> appends to the function list for its result.\<close>

definition invocation :: "func \<times> (string \<times> json) list \<Rightarrow> event" where
  "invocation t = Invoke (func_name (fst t)) (snd t)"

definition call :: "func \<times> (string \<times> json) list \<Rightarrow> outcome" where
  "call t = func_body (fst t) (snd t)"

definition function_result :: "func \<times> (string \<times> json) list \<Rightarrow> core_message \<Rightarrow> core_message" where
  "function_result t m = Function (func_name (fst t)) m"

section \<open>A worked configuration\<close>

text \<open>A concrete configuration for the examples: the delimiter \<^verbatim>\<open><EOF>\<close>, a compact
  JSON text encoding, the functions of gallery.py together with a function that raises a
  core error, and a decoder given by a table of request texts.\<close>

function show_nat :: "nat \<Rightarrow> string" where
  "show_nat n =
     (if n < 10 then [''0123456789'' ! n]
      else show_nat (n div 10) @ [''0123456789'' ! (n mod 10)])"
  by pat_completeness auto
termination
  by (relation "measure id") auto

fun join :: "string \<Rightarrow> string list \<Rightarrow> string" where
  "join sep [] = []"
| "join sep [x] = x"
| "join sep (x # xs) = x @ sep @ join sep xs"

fun example_dumps :: "json \<Rightarrow> bytes" where
  "example_dumps JNull = ''null''"
| "example_dumps (JBool b) = (if b then ''true'' else ''false'')"
| "example_dumps (JNum i) = (if i < 0 then ''-'' @ show_nat (nat (- i)) else show_nat (nat i))"
| "example_dumps (JStr s) = [CHR 0x22] @ s @ [CHR 0x22]"
| "example_dumps (JList xs) = ''['' @ join '','' (map example_dumps xs) @ '']''"
| "example_dumps (JObj kvs) =
     ''{'' @ join '','' (map (\<lambda>kv. [CHR 0x22] @ fst kv @ [CHR 0x22] @ '':'' @ example_dumps (snd kv)) kvs)
     @ ''}''"

fun example_str :: "json \<Rightarrow> string" where
  "example_str JNull = ''None''"
| "example_str (JBool b) = (if b then ''True'' else ''False'')"
| "example_str (JNum i) = (if i < 0 then ''-'' @ show_nat (nat (- i)) else show_nat (nat i))"
| "example_str j = example_dumps j"

text \<open>The raising operation of the spec's example batch: code 42, message
  \<^verbatim>\<open>bad gallery id\<close>.\<close>

definition opB :: func where
  "opB =
     \<lparr>func_name = ''opB'', co_varnames = [''gallery_id''],
      func_body = (\<lambda>kwargs. Raises (CoreError 42 ''bad gallery id''))\<rparr>"

definition example_members :: "(string \<times> func) list" where
  "example_members =
     [(''add_gallery'', add_gallery), (''fetch_galleries'', fetch_galleries),
      (''gallery_view'', gallery_view), (''opB'', opB), (''scan_gallery'', scan_gallery)]"

text \<open>Frames as they arrive, delimiter included, their bodies, and the table that maps
  each body to the value \<^verbatim>\<open>json.loads\<close> yields for it; any other text is a parse
  failure. The decoder of the configuration strips the delimiter and looks the body up.\<close>

definition empty_request :: bytes where
  \<open>empty_request = ''{"name":"x","data":[]}<EOF>''\<close>

definition two_calls_request :: bytes where
  \<open>two_calls_request =
     ''{"name":"x","data":[{"fname":"fetch_galleries","gallery_ids":[1]},{"fname":"scan_gallery"}]}<EOF>''\<close>

definition raising_request :: bytes where
  \<open>raising_request = ''{"name":"x","data":[{"fname":"fetch_galleries"},{"fname":"opB"}]}<EOF>''\<close>

definition two_faults_request :: bytes where
  \<open>two_faults_request =
     ''{"name":"x","data":[{"fname":"fetch_galleries","bogus":1},{"fname":"nope"}]}<EOF>''\<close>

definition unknown_request :: bytes where
  \<open>unknown_request = ''{"name":"x","data":[{"fname":"fetch_galleries"},{"fname":"nope"}]}<EOF>''\<close>

definition list_root_request :: bytes where
  \<open>list_root_request = ''["name","data"]<EOF>''\<close>

definition list_entry_request :: bytes where
  \<open>list_entry_request =
     ''{"name":"x","data":[["fname"],{"fname":"fetch_galleries","bogus":1}]}<EOF>''\<close>

definition envelope :: "json list \<Rightarrow> json" where
  "envelope fs = JObj [(''name'', JStr ''x''), (''data'', JList fs)]"

definition example_requests :: "(bytes \<times> json) list" where
  \<open>example_requests =
     [(''{"name":"x","data":[]}'', envelope []),
      (''{"name":"x","data":[{"fname":"fetch_galleries","gallery_ids":[1]},{"fname":"scan_gallery"}]}'',
         envelope [JObj [(''fname'', JStr ''fetch_galleries''), (''gallery_ids'', JList [JNum 1])],
                   JObj [(''fname'', JStr ''scan_gallery'')]]),
      (''{"name":"x","data":[{"fname":"fetch_galleries"},{"fname":"opB"}]}'',
         envelope [JObj [(''fname'', JStr ''fetch_galleries'')], JObj [(''fname'', JStr ''opB'')]]),
      (''{"name":"x","data":[{"fname":"fetch_galleries","bogus":1},{"fname":"nope"}]}'',
         envelope [JObj [(''fname'', JStr ''fetch_galleries''), (''bogus'', JNum 1)],
                   JObj [(''fname'', JStr ''nope'')]]),
      (''{"name":"x","data":[{"fname":"fetch_galleries"},{"fname":"nope"}]}'',
         envelope [JObj [(''fname'', JStr ''fetch_galleries'')], JObj [(''fname'', JStr ''nope'')]]),
      (''["name","data"]'', JList [JStr ''name'', JStr ''data'']),
      (''{"name":"x","data":[["fname"],{"fname":"fetch_galleries","bogus":1}]}'',
         envelope [JList [JStr ''fname''],
                   JObj [(''fname'', JStr ''fetch_galleries''), (''bogus'', JNum 1)]])]\<close>

definition example_loads :: "bytes \<Rightarrow> string \<Rightarrow> exn + json" where
  "example_loads b where' =
     (case map_of example_requests b of
        Some j \<Rightarrow> Inr j
      | None \<Rightarrow> Inl (InvalidMessage where' ''Failed parsing json data''))"

definition example_decode :: "bytes \<Rightarrow> string \<Rightarrow> exn + json" where
  "example_decode = convert_to_json_spec ''<EOF>'' example_loads"

definition example_env :: env where
  "example_env =
     \<lparr>postfix = ''<EOF>'', server_ready = True, convert_to_json = example_decode,
      members = example_members, dumps = example_dumps, invalid_message_code = 400,
      py_str = example_str\<rparr>"



section \<open>Properties of the model\<close>

lemma parse_functions_all:
  "map (parse_function env w) fs = map Inr ts \<Longrightarrow> parse_functions env w fs = Inr ts"
  by (induction fs arbitrary: ts) auto

lemma parse_functions_first_error:
  "map (parse_function env w) pre = map Inr ts \<Longrightarrow> parse_function env w f = Inl e
   \<Longrightarrow> parse_functions env w (pre @ f # post) = Inl e"
  by (induction pre arbitrary: ts) auto

lemma parse_functions_error_from:
  "parse_functions env w fs = Inl e \<Longrightarrow> \<exists>f \<in> set fs. parse_function env w f = Inl e"
  by (induction fs) (auto split: sum.splits)

lemma parse_functions_error_if:
  "f \<in> set fs \<Longrightarrow> parse_function env w f = Inl e \<Longrightarrow> \<exists>e'. parse_functions env w fs = Inl e'"
  by (induction fs) (auto split: sum.splits)

lemma call_functions_all:
  "map call ts = map Returns ms \<Longrightarrow>
   call_functions ts acc = (map invocation ts, Inr (acc @ map2 function_result ts ms))"
proof (induction ts arbitrary: ms acc)
  case Nil
  then show ?case by simp
next
  case (Cons t ts)
  then obtain m ms' where ms: "ms = m # ms'" by (cases ms) auto
  obtain fn a where t: "t = (fn, a)" by (cases t)
  from Cons.prems ms t have c: "call (fn, a) = Returns m" and r: "map call ts = map Returns ms'"
    by simp_all
  from c have b: "func_body fn a = Returns m" by (simp add: call_def)
  show ?case
    using Cons.IH[OF r] by (simp add: t ms b invocation_def function_result_def)
qed

lemma call_functions_raise:
  "map call pre = map Returns ms \<Longrightarrow> call t = Raises e \<Longrightarrow>
   call_functions (pre @ t # post) acc = (map invocation pre @ [invocation t], Inl e)"
proof (induction pre arbitrary: ms acc)
  case Nil
  obtain fn a where t: "t = (fn, a)" by (cases t)
  with Nil show ?case by (simp add: call_def invocation_def)
next
  case (Cons p pre)
  then obtain m ms' where ms: "ms = m # ms'" by (cases ms) auto
  obtain fn a where p: "p = (fn, a)" by (cases p)
  from Cons.prems(1) ms p have c: "call (fn, a) = Returns m" and r: "map call pre = map Returns ms'"
    by simp_all
  from c have b: "func_body fn a = Returns m" by (simp add: call_def)
  show ?case
    using Cons.IH[OF r Cons.prems(2)] by (simp add: p b invocation_def)
qed

lemma request_calls_shape:
  assumes "request_calls j = Some fs"
  obtains kvs where "j = JObj kvs" "distinct (map fst kvs)"
    "set (map fst kvs) = {''name'', ''data''}" "map_of kvs ''data'' = Some (JList fs)"
proof (cases j)
  case (JObj kvs)
  with assms have d: "distinct (map fst kvs) \<and> set (map fst kvs) = {''name'', ''data''}"
    by (simp add: request_calls_def split: if_splits)
  with assms JObj have "(case map_of kvs ''data'' of Some (JList fs) \<Rightarrow> Some fs | _ \<Rightarrow> None) = Some fs"
    by (simp add: request_calls_def)
  then have "map_of kvs ''data'' = Some (JList fs)"
    by (simp split: option.splits json.splits)
  with JObj d that show ?thesis by blast
qed (use assms in \<open>simp_all add: request_calls_def\<close>)

lemma check_root:
  assumes "request_calls j = Some fs"
  shows "check_both env w ''JSON dict'' root_keys j = Inr () \<and> py_getitem j ''data'' = Inr (JList fs)"
proof -
  from assms obtain kvs where j: "j = JObj kvs"
    and d: "distinct (map fst kvs)" and s: "set (map fst kvs) = {''name'', ''data''}"
    and m: "map_of kvs ''data'' = Some (JList fs)"
    by (rule request_calls_shape)
  from d have "length kvs = card (set (map fst kvs))"
    using distinct_card[of "map fst kvs"] by simp
  also have "\<dots> = 2" unfolding s by simp
  finally have len: "length kvs = 2" .
  from s have "''name'' \<in> fst ` set kvs" "''data'' \<in> fst ` set kvs" by auto
  then have n: "JStr ''name'' \<in> (\<lambda>kv. JStr (fst kv)) ` set kvs"
    and dd: "JStr ''data'' \<in> (\<lambda>kv. JStr (fst kv)) ` set kvs"
    by (auto simp: image_iff)
  have miss: "check_missing env w ''JSON dict'' root_keys j = Inr ()"
    using n dd
    by (simp add: check_missing_def check_required_key_def expect_iterable_def root_keys_def j)
  have unk: "check_unknown env w ''JSON dict'' root_keys j = Inr ()"
    by (simp add: check_unknown_def root_keys_def j len)
  show ?thesis
    using miss unk by (simp add: check_both_def j m)
qed

lemma parse_request:
  assumes "convert_to_json env b ''Message parsing'' = Inr j" and "request_calls j = Some fs"
  shows "parse env b = parse_functions env ''Message parsing'' fs"
  using assms(1) check_root[OF assms(2), of env "''Message parsing''"]
  by (simp add: parse_def)

lemma is_callE:
  assumes "is_call f"
  obtains kvs n where "f = JObj kvs" "map_of kvs ''fname'' = Some (JStr n)"
proof (cases f)
  case (JObj kvs)
  with assms obtain v where v: "map_of kvs ''fname'' = Some v"
    by (cases "map_of kvs ''fname''") (auto simp: is_call_def)
  with assms JObj obtain n where "v = JStr n"
    by (cases v) (auto simp: is_call_def)
  with v JObj that show ?thesis by blast
qed (use assms in \<open>simp_all add: is_call_def\<close>)

lemma is_call_parse_function:
  assumes "is_call f"
  shows "(\<exists>t. parse_function env w f = Inr t) \<or> (\<exists>m. parse_function env w f = Inl (InvalidMessage w m))"
proof -
  from assms obtain kvs n where f: "f = JObj kvs" and m: "map_of kvs ''fname'' = Some (JStr n)"
    by (rule is_callE)
  from m have "(''fname'', JStr n) \<in> set kvs" by (rule map_of_SomeD)
  then have "JStr ''fname'' \<in> (\<lambda>kv. JStr (fst kv)) ` set kvs" by force
  then have miss: "check_missing env w ''Function message'' function_keys (JObj kvs) = Inr ()"
    by (simp add: check_missing_def check_required_key_def expect_iterable_def function_keys_def)
  show ?thesis
    unfolding f parse_function_def
    by (simp add: miss m Let_def split: option.splits)
qed

lemma decoded_append: "decoded (xs @ ys) = decoded xs @ decoded ys"
  by (induction xs rule: decoded.induct) simp_all

lemma invoked_append: "invoked (xs @ ys) = invoked xs @ invoked ys"
  by (induction xs rule: invoked.induct) simp_all

lemma on_wait_events: "on_wait env = [Sendall (dumps env (JObj [(''type'', JStr ''wait'')])), Sendall (postfix env)]"
  by (simp add: on_wait_def send_def serialize_def)

lemma dispatch_not_ready:
  "\<not> server_ready env \<Longrightarrow>
     decoded (fst (dispatch env handler buffer)) = [] \<and> invoked (fst (dispatch env handler buffer)) = []"
  by (simp add: dispatch_def advance_def on_wait_events)

lemma handle_loop_not_ready:
  "\<not> server_ready env \<Longrightarrow>
     decoded (fst (handle_loop env handler buffer script)) = []
     \<and> invoked (fst (handle_loop env handler buffer script)) = []"
proof (induction script arbitrary: buffer)
  case Nil
  obtain evs r where d: "dispatch env handler buffer = (evs, r)"
    by (cases "dispatch env handler buffer")
  with dispatch_not_ready[OF Nil, of handler buffer] show ?case
    by (cases r) simp_all
next
  case (Cons rcv script)
  obtain evs r where d: "dispatch env handler buffer = (evs, r)"
    by (cases "dispatch env handler buffer")
  with dispatch_not_ready[OF Cons.prems, of handler buffer]
  have e: "decoded evs = []" "invoked evs = []" by simp_all
  show ?case
  proof (cases r)
    case (Inl x)
    with d e show ?thesis by simp
  next
    case (Inr buffer')
    show ?thesis
    proof (cases rcv)
      case RecvError
      with d e Inr show ?thesis by simp
    next
      case (Recv bs)
      obtain evs' r' where h: "handle_loop env handler (buffer' @ bs) script = (evs', r')"
        by (cases "handle_loop env handler (buffer' @ bs) script")
      with Cons.IH[OF Cons.prems, of "buffer' @ bs"]
      have "decoded evs' = []" "invoked evs' = []" by simp_all
      with d e Inr Recv h show ?thesis
        by (simp add: decoded_append invoked_append)
    qed
  qed
qed

lemma advance_parse_error:
  "server_ready env \<Longrightarrow> parse env buffer = Inl e \<Longrightarrow> is_CoreError e \<Longrightarrow>
   advance env buffer =
     ([Decode buffer, Sendall (serialize env (Error (exn_code env e) (exn_msg e))),
       Sendall (postfix env)], None)"
  by (simp add: advance_def except_CoreError_def on_error_def send_def)

lemma advance_parse_escape:
  "server_ready env \<Longrightarrow> parse env buffer = Inl e \<Longrightarrow> \<not> is_CoreError e \<Longrightarrow>
   advance env buffer = ([Decode buffer], Some e)"
  by (simp add: advance_def except_CoreError_def)

lemma advance_parse_fails_no_call:
  assumes "server_ready env" and "parse env buffer = Inl e"
  shows "invoked (fst (advance env buffer)) = []"
proof (cases "is_CoreError e")
  case True
  from advance_parse_error[OF assms True] show ?thesis by simp
next
  case False
  from advance_parse_escape[OF assms False] show ?thesis by simp
qed

lemma strip_postfix_append: "strip_postfix p (body @ p) = body"
  by (simp add: strip_postfix_def endswith_def)

lemma example_decode_frame:
  "convert_to_json example_env (body @ ''<EOF>'') w = example_loads body w"
  by (simp add: example_env_def example_decode_def convert_to_json_spec_def strip_postfix_append)

lemma request_frames:
  \<open>empty_request = ''{"name":"x","data":[]}'' @ ''<EOF>''\<close>
  \<open>two_calls_request =
     ''{"name":"x","data":[{"fname":"fetch_galleries","gallery_ids":[1]},{"fname":"scan_gallery"}]}'' @ ''<EOF>''\<close>
  \<open>raising_request = ''{"name":"x","data":[{"fname":"fetch_galleries"},{"fname":"opB"}]}'' @ ''<EOF>''\<close>
  \<open>two_faults_request =
     ''{"name":"x","data":[{"fname":"fetch_galleries","bogus":1},{"fname":"nope"}]}'' @ ''<EOF>''\<close>
  \<open>unknown_request = ''{"name":"x","data":[{"fname":"fetch_galleries"},{"fname":"nope"}]}'' @ ''<EOF>''\<close>
  \<open>list_root_request = ''["name","data"]'' @ ''<EOF>''\<close>
  \<open>list_entry_request =
     ''{"name":"x","data":[["fname"],{"fname":"fetch_galleries","bogus":1}]}'' @ ''<EOF>''\<close>
  by (simp_all add: empty_request_def two_calls_request_def raising_request_def
      two_faults_request_def unknown_request_def list_root_request_def list_entry_request_def)

lemma example_decode_empty:
  "convert_to_json example_env empty_request ''Message parsing'' = Inr (envelope [])"
  unfolding request_frames example_decode_frame
  by (simp add: example_loads_def example_requests_def)

lemma example_ready: "server_ready example_env"
  by (simp add: example_env_def)

lemma example_api:
  "api example_env ''fetch_galleries'' = Some fetch_galleries"
  "api example_env ''scan_gallery'' = Some scan_gallery"
  "api example_env ''opB'' = Some opB"
  "api example_env ''nope'' = None"
  by (simp_all add: api_def example_env_def example_members_def special_functions_def)

lemma example_decode_two_calls:
  "convert_to_json example_env two_calls_request ''Message parsing'' =
     Inr (envelope [JObj [(''fname'', JStr ''fetch_galleries''), (''gallery_ids'', JList [JNum 1])],
                    JObj [(''fname'', JStr ''scan_gallery'')]])"
  unfolding request_frames example_decode_frame
  by (simp add: example_loads_def example_requests_def)

lemma request_calls_envelope: "request_calls (envelope fs) = Some fs"
  by (simp add: request_calls_def envelope_def)

lemma parse_function_fetch:
  "parse_function example_env w (JObj [(''fname'', JStr ''fetch_galleries''), (''gallery_ids'', JList [JNum 1])])
     = Inr (fetch_galleries, [(''gallery_ids'', JList [JNum 1])])"
  by (simp add: parse_function_def check_missing_def check_required_key_def expect_iterable_def
      function_keys_def example_api fetch_galleries_def Let_def)

lemma parse_function_scan:
  "parse_function example_env w (JObj [(''fname'', JStr ''scan_gallery'')]) = Inr (scan_gallery, [])"
  by (simp add: parse_function_def check_missing_def check_required_key_def expect_iterable_def
      function_keys_def example_api)

lemma example_decode_raising:
  "convert_to_json example_env raising_request ''Message parsing'' =
     Inr (envelope [JObj [(''fname'', JStr ''fetch_galleries'')], JObj [(''fname'', JStr ''opB'')]])"
  unfolding request_frames example_decode_frame
  by (simp add: example_loads_def example_requests_def)

lemma parse_function_plain:
  "api env n = Some fn \<Longrightarrow> parse_function env w (JObj [(''fname'', JStr n)]) = Inr (fn, [])"
  by (simp add: parse_function_def check_missing_def check_required_key_def expect_iterable_def
      function_keys_def)

lemma parse_function_unknown:
  "map_of kvs ''fname'' = Some (JStr n) \<Longrightarrow> api env n = None \<Longrightarrow>
   parse_function env w (JObj kvs) = Inl (InvalidMessage w (''Function not found: '' @ quoted n))"
proof -
  assume m: "map_of kvs ''fname'' = Some (JStr n)" and a: "api env n = None"
  from m have "(''fname'', JStr n) \<in> set kvs" by (rule map_of_SomeD)
  then have "JStr ''fname'' \<in> (\<lambda>kv. JStr (fst kv)) ` set kvs" by force
  then have miss: "check_missing env w ''Function message'' function_keys (JObj kvs) = Inr ()"
    by (simp add: check_missing_def check_required_key_def expect_iterable_def function_keys_def)
  show ?thesis
    unfolding parse_function_def by (simp add: miss m a format_arg_def)
qed

lemma parse_function_unexpected:
  assumes m: "map_of kvs ''fname'' = Some (JStr n)" and a: "api env n = Some fn"
    and k: "k \<in> fst ` set kvs" "k \<noteq> ''fname''" "k \<notin> set (co_varnames fn)"
  shows "\<exists>m. parse_function env w (JObj kvs) = Inl (InvalidMessage w m)"
proof -
  from m have "(''fname'', JStr n) \<in> set kvs" by (rule map_of_SomeD)
  then have "JStr ''fname'' \<in> (\<lambda>kv. JStr (fst kv)) ` set kvs" by force
  then have miss: "check_missing env w ''Function message'' function_keys (JObj kvs) = Inr ()"
    by (simp add: check_missing_def check_required_key_def expect_iterable_def function_keys_def)
  let ?args = "filter (\<lambda>arg. JStr arg \<notin> set (py_iter function_keys)) (map fst (dict_items (JObj kvs)))"
  from k have "k \<in> set ?args" by (auto simp: function_keys_def)
  with k(3) have "find (\<lambda>arg. arg \<notin> set (co_varnames fn)) ?args \<noteq> None"
    by (auto simp: find_None_iff)
  then obtain arg where f: "find (\<lambda>arg. arg \<notin> set (co_varnames fn)) ?args = Some arg" by blast
  show ?thesis
    unfolding parse_function_def using f by (simp add: miss m a Let_def)
qed

lemma example_decode_unknown:
  "convert_to_json example_env unknown_request ''Message parsing'' =
     Inr (envelope [JObj [(''fname'', JStr ''fetch_galleries'')], JObj [(''fname'', JStr ''nope'')]])"
  unfolding request_frames example_decode_frame
  by (simp add: example_loads_def example_requests_def)

lemma example_decode_two_faults:
  "convert_to_json example_env two_faults_request ''Message parsing'' =
     Inr (envelope [JObj [(''fname'', JStr ''fetch_galleries''), (''bogus'', JNum 1)],
                    JObj [(''fname'', JStr ''nope'')]])"
  unfolding request_frames example_decode_frame
  by (simp add: example_loads_def example_requests_def)

lemma example_decode_list_root:
  "convert_to_json example_env list_root_request ''Message parsing'' =
     Inr (JList [JStr ''name'', JStr ''data''])"
  unfolding request_frames example_decode_frame
  by (simp add: example_loads_def example_requests_def)

lemma py_getitem_envelope: "py_getitem (envelope fs) ''data'' = Inr (JList fs)"
  by (simp add: envelope_def)

lemma parse_function_bogus:
  \<open>parse_function example_env ''Message parsing''
      (JObj [(''fname'', JStr ''fetch_galleries''), (''bogus'', JNum 1)])
    = Inl (InvalidMessage ''Message parsing''
             (''Unexpected argument in function 'fetch_galleries': '' @ quoted ''bogus''))\<close>
  by (simp add: parse_function_def check_missing_def check_required_key_def expect_iterable_def
      function_keys_def example_api fetch_galleries_def format_arg_def quoted_def)



















lemma parse_functions_prefix_error:
  "parse_function env w f = Inl e \<Longrightarrow>
   \<exists>g \<in> set (pre @ [f]). \<exists>e'. parse_function env w g = Inl e'
      \<and> parse_functions env w (pre @ f # post) = Inl e'"
proof (induction pre)
  case Nil
  then show ?case by simp
next
  case (Cons p pre)
  show ?case
  proof (cases "parse_function env w p")
    case (Inl e0)
    then show ?thesis by simp
  next
    case (Inr t)
    from Cons.IH[OF Cons.prems] obtain g e' where
      "g \<in> set (pre @ [f])" "parse_function env w g = Inl e'"
      "parse_functions env w (pre @ f # post) = Inl e'" by blast
    with Inr show ?thesis by auto
  qed
qed

lemma unexpected_argument_rejected:
  assumes "server_ready env"
    and "convert_to_json env buffer ''Message parsing'' = Inr j"
    and "request_calls j = Some (pre @ JObj kvs # post)"
    and "list_all is_call pre"
    and "map_of kvs ''fname'' = Some (JStr n)"
    and "api env n = Some fn"
    and "k \<in> fst ` set kvs"
    and "k \<noteq> ''fname''"
    and "k \<notin> set (co_varnames fn)"
  shows "\<exists>m. advance env buffer =
           ([Decode buffer, Sendall (serialize env (Error (invalid_message_code env) m)),
             Sendall (postfix env)], None)"
proof -
  from parse_function_unexpected[OF assms(5-9)]
  obtain m0 where u: "parse_function env ''Message parsing'' (JObj kvs)
                    = Inl (InvalidMessage ''Message parsing'' m0)" by blast
  from parse_functions_prefix_error[OF u, of pre post]
  obtain g e' where g: "g \<in> set (pre @ [JObj kvs])"
    and ge: "parse_function env ''Message parsing'' g = Inl e'"
    and pf: "parse_functions env ''Message parsing'' (pre @ JObj kvs # post) = Inl e'" by blast
  have "\<exists>m. e' = InvalidMessage ''Message parsing'' m"
  proof (cases "g \<in> set pre")
    case True
    with assms(4) have "is_call g" by (simp add: list_all_iff)
    from is_call_parse_function[OF this, of env "''Message parsing''"] ge show ?thesis by auto
  next
    case False
    with g have "g = JObj kvs" by simp
    with u ge have "e' = InvalidMessage ''Message parsing'' m0" by simp
    then show ?thesis ..
  qed
  then obtain m where e': "e' = InvalidMessage ''Message parsing'' m" by blast
  from parse_request[OF assms(2,3)] pf e'
  have p: "parse env buffer = Inl (InvalidMessage ''Message parsing'' m)" by simp
  from advance_parse_error[OF assms(1) p]
  have "advance env buffer =
          ([Decode buffer, Sendall (serialize env (Error (invalid_message_code env) m)),
            Sendall (postfix env)], None)"
    by simp
  then show ?thesis ..
qed

lemma example_decode_list_entry:
  "convert_to_json example_env list_entry_request ''Message parsing'' =
     Inr (envelope [JList [JStr ''fname''],
                    JObj [(''fname'', JStr ''fetch_galleries''), (''bogus'', JNum 1)]])"
  unfolding request_frames example_decode_frame
  by (simp add: example_loads_def example_requests_def)

lemma parse_function_list_entry:
  "parse_function env w (JList [JStr ''fname''])
     = Inl (TypeError ''list indices must be integers or slices, not str'')"
  by (simp add: parse_function_def check_missing_def check_required_key_def expect_iterable_def
      function_keys_def)

section \<open>The claims\<close>

text \<open>
  Claim C1. For every received frame, if the readiness flag is unset at dispatch time,
  the handler sends exactly the wait message \<^verbatim>\<open>{"type":"wait"}\<close> followed by the
  delimiter, calls no interface function and hands nothing to the decoder, whatever the
  frame's bytes are. The first conjunct is about one call of \<^verbatim>\<open>advance\<close>, the other
  two about a whole connection.
\<close>

theorem wait_when_not_ready:
  assumes "\<not> server_ready env"
  shows "advance env buffer =
           ([Sendall (dumps env (JObj [(''type'', JStr ''wait'')])), Sendall (postfix env)], None)
         \<and> decoded (fst (handle_loop env handler buffer script)) = []
         \<and> invoked (fst (handle_loop env handler buffer script)) = []"
  using assms handle_loop_not_ready[OF assms, of handler buffer script]
  by (simp add: advance_def on_wait_events)

theorem wait_when_not_ready_witness:
  \<open>\<not> server_ready (example_env\<lparr>server_ready := False\<rparr>)
   \<and> advance (example_env\<lparr>server_ready := False\<rparr>) ''not json at all<EOF>'' =
       ([Sendall ''{"type":"wait"}'', Sendall ''<EOF>''], None)\<close>
  using wait_when_not_ready[of "example_env\<lparr>server_ready := False\<rparr>" "''not json at all<EOF>''"]
  by (simp add: example_env_def)

text \<open>
  Claim C2. When, in a parsed batch, a call raises a \<^verbatim>\<open>CoreError\<close> after the calls
  before it have returned, the remaining calls are not made, exactly one error message
  with that error's code and message is sent, and no result of an earlier call is sent.
\<close>

theorem core_error_discards_results:
  assumes "server_ready env"
    and "parse env buffer = Inr (pre @ t # post)"
    and "map call pre = map Returns ms"
    and "call t = Raises e"
    and "is_CoreError e"
  shows "advance env buffer =
           (Decode buffer # map invocation pre
              @ [invocation t,
                 Sendall (dumps env (JObj [(''type'', JStr ''error''), (''code'', JNum (exn_code env e)),
                                           (''message'', JStr (exn_msg e))])),
                 Sendall (postfix env)],
            None)"
proof -
  from call_functions_raise[OF assms(3,4), of post "[]"]
  have c: "call_functions (pre @ t # post) [] = (map invocation pre @ [invocation t], Inl e)" .
  from assms(1,2,5) c show ?thesis
    by (simp add: advance_def except_CoreError_def on_error_def send_def serialize_def)
qed

theorem core_error_discards_results_witness:
  \<open>advance example_env raising_request =
     ([Decode raising_request, Invoke ''fetch_galleries'' [], Invoke ''opB'' [],
       Sendall ''{"type":"error","code":42,"message":"bad gallery id"}'', Sendall ''<EOF>''], None)\<close>
proof -
  have p: "parse example_env raising_request = Inr ([(fetch_galleries, [])] @ (opB, []) # [])"
    using parse_request[OF example_decode_raising request_calls_envelope]
    by (simp add: parse_function_plain example_api)
  have c: "map call [(fetch_galleries, [])] = map Returns [Message ''works'']"
    by (simp add: call_def fetch_galleries_def keyword_call_def)
  have r: "call (opB, []) = Raises (CoreError 42 ''bad gallery id'')"
    by (simp add: call_def opB_def)
  from core_error_discards_results[OF example_ready p c r]
  show ?thesis
    by (simp add: invocation_def fetch_galleries_def opB_def example_env_def)
qed



text \<open>
  Claim C4. The claim says that every deviation from the request schema, a wrong
  container type for the root included, is answered with one error message and never
  leaves the dispatch. On the frame \<^verbatim>\<open>["name","data"]\<close> the key checks pass, because
  membership in a list succeeds, and the subscript \<^verbatim>\<open>j_data['data']\<close> raises
  \<^verbatim>\<open>TypeError\<close>: nothing is sent, the exception leaves \<^verbatim>\<open>advance\<close> and
  \<^verbatim>\<open>_handle\<close>, and the frame that follows is never read.
\<close>

theorem list_root_escapes:
  \<open>convert_to_json example_env ''["name","data"]<EOF>'' ''Message parsing''
     = Inr (JList [JStr ''name'', JStr ''data''])
   \<and> advance example_env ''["name","data"]<EOF>'' =
       ([Decode ''["name","data"]<EOF>''],
        Some (TypeError ''list indices must be integers or slices, not str''))
   \<and> handle example_env ''peer'' [Recv ''["name","data"]<EOF>'', Recv ''{"name":"x","data":[]}<EOF>''] =
       ([Decode ''["name","data"]<EOF>''],
        Uncaught (TypeError ''list indices must be integers or slices, not str''))\<close>
proof -
  have c: "convert_to_json example_env list_root_request ''Message parsing''
             = Inr (JList [JStr ''name'', JStr ''data''])"
    by (rule example_decode_list_root)
  have p: "parse example_env list_root_request
             = Inl (TypeError ''list indices must be integers or slices, not str'')"
    by (simp add: parse_def c check_both_def check_missing_def check_unknown_def
        check_required_key_def expect_iterable_def root_keys_def)
  have a: "advance example_env list_root_request =
       ([Decode list_root_request], Some (TypeError ''list indices must be integers or slices, not str''))"
    using advance_parse_escape[OF example_ready p] by simp
  have po: "postfix example_env = ''<EOF>''" by (simp add: example_env_def)
  have n: "\<not> endswith [] (postfix example_env)" by (simp add: po endswith_def)
  have e: "endswith list_root_request (postfix example_env)"
    by (simp add: po endswith_def list_root_request_def)
  have d0: "dispatch example_env \<lparr>address = ''peer'', stopped = False\<rparr> [] = ([], Inr [])"
    using n by (simp add: dispatch_def)
  have d1: "dispatch example_env \<lparr>address = ''peer'', stopped = False\<rparr> list_root_request
              = ([Decode list_root_request],
                 Inl (Uncaught (TypeError ''list indices must be integers or slices, not str'')))"
    using e by (simp add: dispatch_def is_active_def a)
  have ne: "list_root_request \<noteq> []" by (simp add: list_root_request_def)
  have h: "handle example_env ''peer'' [Recv list_root_request, Recv empty_request] =
       ([Decode list_root_request],
        Uncaught (TypeError ''list indices must be integers or slices, not str''))"
    using ne by (simp add: handle_def d0 d1)
  from c a h show ?thesis
    by (simp add: list_root_request_def empty_request_def)
qed

text \<open>
  Claim C5, as amended. For a request on a ready server that names a function absent from
  \<^verbatim>\<open>api\<close>: when every call before it passes its checks, exactly one error message is
  sent, with the message \<^verbatim>\<open>Function not found: '<name>'\<close> for that name, and no function
  is called, whatever follows in the batch; when instead the first call that fails its
  checks comes before it and fails with an \<^verbatim>\<open>InvalidMessage\<close>, exactly one error message
  is sent, with that earlier message, and no function is called. The claim as stated
  promises the unknown name in the message for every such request; the counterexample
  below has an earlier call with an unexpected argument, and the one message reports that
  argument.
\<close>

theorem unknown_function_reported:
  assumes "server_ready env"
    and "convert_to_json env buffer ''Message parsing'' = Inr j"
    and "request_calls j = Some (pre @ JObj kvs # post)"
    and "map_of kvs ''fname'' = Some (JStr n)"
    and "api env n = None"
  shows "(map (parse_function env ''Message parsing'') pre = map Inr ts \<longrightarrow>
            advance env buffer =
              ([Decode buffer,
                Sendall (serialize env (Error (invalid_message_code env)
                                          (''Function not found: '' @ quoted n))),
                Sendall (postfix env)], None))
         \<and> (pre = pre1 @ f # pre2
              \<and> map (parse_function env ''Message parsing'') pre1 = map Inr ts1
              \<and> parse_function env ''Message parsing'' f = Inl (InvalidMessage w m) \<longrightarrow>
              advance env buffer =
                ([Decode buffer, Sendall (serialize env (Error (invalid_message_code env) m)),
                  Sendall (postfix env)], None))"
proof (intro conjI impI)
  have u: "parse_function env ''Message parsing'' (JObj kvs)
             = Inl (InvalidMessage ''Message parsing'' (''Function not found: '' @ quoted n))"
    using assms(4,5) by (rule parse_function_unknown)
  note pr = parse_request[OF assms(2,3)]
  {
    assume "map (parse_function env ''Message parsing'') pre = map Inr ts"
    from parse_functions_first_error[OF this u, of post] pr
    have p: "parse env buffer
               = Inl (InvalidMessage ''Message parsing'' (''Function not found: '' @ quoted n))"
      by simp
    from advance_parse_error[OF assms(1) p]
    show "advance env buffer =
            ([Decode buffer,
              Sendall (serialize env (Error (invalid_message_code env)
                                        (''Function not found: '' @ quoted n))),
              Sendall (postfix env)], None)"
      by simp
  }
  {
    assume h: "pre = pre1 @ f # pre2
                \<and> map (parse_function env ''Message parsing'') pre1 = map Inr ts1
                \<and> parse_function env ''Message parsing'' f = Inl (InvalidMessage w m)"
    then have e: "pre @ JObj kvs # post = pre1 @ f # (pre2 @ JObj kvs # post)" by simp
    from h parse_functions_first_error[of env "''Message parsing''" pre1 ts1 f
        "InvalidMessage w m" "pre2 @ JObj kvs # post"] pr
    have p: "parse env buffer = Inl (InvalidMessage w m)"
      unfolding e by simp
    from advance_parse_error[OF assms(1) p]
    show "advance env buffer =
            ([Decode buffer, Sendall (serialize env (Error (invalid_message_code env) m)),
              Sendall (postfix env)], None)"
      by simp
  }
qed

theorem unknown_function_reported_witness:
  \<open>advance example_env unknown_request =
     ([Decode unknown_request,
       Sendall ''{"type":"error","code":400,"message":"Function not found: 'nope'"}'',
       Sendall ''<EOF>''], None)
   \<and> advance example_env two_faults_request =
       ([Decode two_faults_request,
         Sendall ''{"type":"error","code":400,"message":"Unexpected argument in function 'fetch_galleries': 'bogus'"}'',
         Sendall ''<EOF>''], None)\<close>
proof -
  let ?ok = "JObj [(''fname'', JStr ''fetch_galleries'')]"
  let ?bad = "JObj [(''fname'', JStr ''fetch_galleries''), (''bogus'', JNum 1)]"
  let ?nope = "[(''fname'', JStr ''nope'')]"
  have m: "map_of ?nope ''fname'' = Some (JStr ''nope'')" by simp
  have r1: "request_calls (envelope [?ok, JObj ?nope]) = Some ([?ok] @ JObj ?nope # [])"
    by (simp add: request_calls_envelope)
  have p1: "map (parse_function example_env ''Message parsing'') [?ok] = map Inr [(fetch_galleries, [])]"
    by (simp add: parse_function_plain example_api)
  have a1: \<open>advance example_env unknown_request =
     ([Decode unknown_request,
       Sendall ''{"type":"error","code":400,"message":"Function not found: 'nope'"}'',
       Sendall ''<EOF>''], None)\<close>
    using unknown_function_reported[OF example_ready example_decode_unknown r1 m example_api(4),
        of "[(fetch_galleries, [])]"] p1
    by (simp add: serialize_def quoted_def example_env_def)
  have r2: "request_calls (envelope [?bad, JObj ?nope]) = Some ([?bad] @ JObj ?nope # [])"
    by (simp add: request_calls_envelope)
  have h2: "[?bad] = [] @ ?bad # []
             \<and> map (parse_function example_env ''Message parsing'') [] = map Inr []
             \<and> parse_function example_env ''Message parsing'' ?bad
                 = Inl (InvalidMessage ''Message parsing''
                         (''Unexpected argument in function 'fetch_galleries': '' @ quoted ''bogus''))"
    by (simp add: parse_function_bogus)
  have a2: \<open>advance example_env two_faults_request =
       ([Decode two_faults_request,
         Sendall ''{"type":"error","code":400,"message":"Unexpected argument in function 'fetch_galleries': 'bogus'"}'',
         Sendall ''<EOF>''], None)\<close>
    using unknown_function_reported[OF example_ready example_decode_two_faults r2 m example_api(4),
        of _ "[]" ?bad "[]" "[]"] h2
    by (simp add: serialize_def quoted_def example_env_def)
  from a1 a2 show ?thesis by simp
qed

theorem unknown_function_counterexample:
  \<open>server_ready example_env
   \<and> convert_to_json example_env two_faults_request ''Message parsing''
       = Inr (JObj [(''name'', JStr ''x''),
                    (''data'', JList [JObj [(''fname'', JStr ''fetch_galleries''), (''bogus'', JNum 1)],
                                      JObj [(''fname'', JStr ''nope'')]])])
   \<and> api example_env ''nope'' = None
   \<and> advance example_env two_faults_request =
       ([Decode two_faults_request,
         Sendall ''{"type":"error","code":400,"message":"Unexpected argument in function 'fetch_galleries': 'bogus'"}'',
         Sendall ''<EOF>''], None)
   \<and> advance example_env two_faults_request \<noteq>
       ([Decode two_faults_request,
         Sendall ''{"type":"error","code":400,"message":"Function not found: 'nope'"}'',
         Sendall ''<EOF>''], None)\<close>
proof -
  have p: "parse example_env two_faults_request
             = Inl (InvalidMessage ''Message parsing''
                     (''Unexpected argument in function 'fetch_galleries': '' @ quoted ''bogus''))"
    using parse_request[OF example_decode_two_faults request_calls_envelope]
    by (simp add: parse_function_bogus)
  have a: \<open>advance example_env two_faults_request =
       ([Decode two_faults_request,
         Sendall ''{"type":"error","code":400,"message":"Unexpected argument in function 'fetch_galleries': 'bogus'"}'',
         Sendall ''<EOF>''], None)\<close>
    using advance_parse_error[OF example_ready p]
    by (simp add: serialize_def quoted_def example_env_def)
  have d: "convert_to_json example_env two_faults_request ''Message parsing''
       = Inr (JObj [(''name'', JStr ''x''),
                    (''data'', JList [JObj [(''fname'', JStr ''fetch_galleries''), (''bogus'', JNum 1)],
                                      JObj [(''fname'', JStr ''nope'')]])])"
    using example_decode_two_faults by (simp add: envelope_def)
  show ?thesis
    unfolding a using d by (simp add: example_ready example_api)
qed

text \<open>
  Claim C6. The claim says that a call with an argument key outside the accepted names
  of its function is answered with exactly one error message. For the batch
  \<^verbatim>\<open>[["fname"], {"fname":"fetch_galleries","bogus":1}]\<close> the first entry passes
  \<^verbatim>\<open>_check_missing\<close> by list membership and the subscript \<^verbatim>\<open>f['fname']\<close> raises
  \<^verbatim>\<open>TypeError\<close> before the second entry is reached: nothing is sent, the exception
  leaves \<^verbatim>\<open>advance\<close> and \<^verbatim>\<open>_handle\<close>, and the frame that follows is never read.
\<close>

theorem unexpected_argument_after_list_entry:
  \<open>convert_to_json example_env
      ''{"name":"x","data":[["fname"],{"fname":"fetch_galleries","bogus":1}]}<EOF>'' ''Message parsing''
     = Inr (JObj [(''name'', JStr ''x''),
                  (''data'', JList [JList [JStr ''fname''],
                                    JObj [(''fname'', JStr ''fetch_galleries''), (''bogus'', JNum 1)]])])
   \<and> api example_env ''fetch_galleries'' = Some fetch_galleries
   \<and> ''bogus'' \<notin> set (co_varnames fetch_galleries)
   \<and> advance example_env ''{"name":"x","data":[["fname"],{"fname":"fetch_galleries","bogus":1}]}<EOF>'' =
       ([Decode ''{"name":"x","data":[["fname"],{"fname":"fetch_galleries","bogus":1}]}<EOF>''],
        Some (TypeError ''list indices must be integers or slices, not str''))
   \<and> handle example_env ''peer''
         [Recv ''{"name":"x","data":[["fname"],{"fname":"fetch_galleries","bogus":1}]}<EOF>'',
          Recv ''{"name":"x","data":[]}<EOF>''] =
       ([Decode ''{"name":"x","data":[["fname"],{"fname":"fetch_galleries","bogus":1}]}<EOF>''],
        Uncaught (TypeError ''list indices must be integers or slices, not str''))\<close>
proof -
  have c: "convert_to_json example_env list_entry_request ''Message parsing''
     = Inr (JObj [(''name'', JStr ''x''),
                  (''data'', JList [JList [JStr ''fname''],
                                    JObj [(''fname'', JStr ''fetch_galleries''), (''bogus'', JNum 1)]])])"
    using example_decode_list_entry by (simp add: envelope_def)
  have p: "parse example_env list_entry_request
             = Inl (TypeError ''list indices must be integers or slices, not str'')"
    using parse_request[OF example_decode_list_entry request_calls_envelope]
    by (simp add: parse_function_list_entry)
  have a: "advance example_env list_entry_request =
       ([Decode list_entry_request], Some (TypeError ''list indices must be integers or slices, not str''))"
    using advance_parse_escape[OF example_ready p] by simp
  have po: "postfix example_env = ''<EOF>''" by (simp add: example_env_def)
  have n: "\<not> endswith [] (postfix example_env)" by (simp add: po endswith_def)
  have e: "endswith list_entry_request (postfix example_env)"
    by (simp add: po endswith_def list_entry_request_def)
  have d0: "dispatch example_env \<lparr>address = ''peer'', stopped = False\<rparr> [] = ([], Inr [])"
    using n by (simp add: dispatch_def)
  have d1: "dispatch example_env \<lparr>address = ''peer'', stopped = False\<rparr> list_entry_request
              = ([Decode list_entry_request],
                 Inl (Uncaught (TypeError ''list indices must be integers or slices, not str'')))"
    using e by (simp add: dispatch_def is_active_def a)
  have ne: "list_entry_request \<noteq> []" by (simp add: list_entry_request_def)
  have h: "handle example_env ''peer'' [Recv list_entry_request, Recv empty_request] =
       ([Decode list_entry_request],
        Uncaught (TypeError ''list indices must be integers or slices, not str''))"
    using ne by (simp add: handle_def d0 d1)
  have k: "''bogus'' \<notin> set (co_varnames fetch_galleries)" by (simp add: fetch_galleries_def)
  from c a h k show ?thesis
    by (simp add: list_entry_request_def empty_request_def example_api)
qed

text \<open>
  Claim C7. For a valid request on a ready server in which every call returns a message,
  the functions are called in the order of the calls in \<^verbatim>\<open>data\<close>, and the response is
  the function list with one result per call in the same order.
\<close>

theorem batch_in_order:
  assumes "server_ready env"
    and "convert_to_json env buffer ''Message parsing'' = Inr j"
    and "request_calls j = Some fs"
    and "map (parse_function env ''Message parsing'') fs = map Inr ts"
    and "map call ts = map Returns ms"
  shows "advance env buffer =
           (Decode buffer # map invocation ts
              @ [Sendall (serialize env (List ''function'' (map2 function_result ts ms))),
                 Sendall (postfix env)],
            None)"
proof -
  from parse_request[OF assms(2,3)] parse_functions_all[OF assms(4)]
  have p: "parse env buffer = Inr ts" by simp
  from call_functions_all[OF assms(5), of "[]"]
  have c: "call_functions ts [] = (map invocation ts, Inr (map2 function_result ts ms))" by simp
  from assms(1) p c show ?thesis
    by (simp add: advance_def send_def)
qed

theorem batch_in_order_witness:
  \<open>advance example_env two_calls_request =
     ([Decode two_calls_request,
       Invoke ''fetch_galleries'' [(''gallery_ids'', JList [JNum 1])],
       Invoke ''scan_gallery'' [],
       Sendall ''{"type":"function","data":[{"fname":"fetch_galleries","data":{"type":"works"}},{"fname":"scan_gallery","data":{"type":"works"}}]}'',
       Sendall ''<EOF>''], None)\<close>
proof -
  have p: "map (parse_function example_env ''Message parsing'')
             [JObj [(''fname'', JStr ''fetch_galleries''), (''gallery_ids'', JList [JNum 1])],
              JObj [(''fname'', JStr ''scan_gallery'')]]
           = map Inr [(fetch_galleries, [(''gallery_ids'', JList [JNum 1])]), (scan_gallery, [])]"
    by (simp add: parse_function_fetch parse_function_scan)
  have c: "map call [(fetch_galleries, [(''gallery_ids'', JList [JNum 1])]), (scan_gallery, [])]
           = map Returns [Message ''works'', Message ''works'']"
    by (simp add: call_def fetch_galleries_def scan_gallery_def keyword_call_def)
  from batch_in_order[OF example_ready example_decode_two_calls request_calls_envelope p c]
  show ?thesis
    by (simp add: invocation_def function_result_def serialize_def fetch_galleries_def
        scan_gallery_def example_env_def)
qed

text \<open>
  Claim C8. For the request \<^verbatim>\<open>{"name":"x","data":[]}\<close> on a ready server, parsing
  succeeds with an empty list of calls, no function is called and the response is the
  serialised empty function list \<^verbatim>\<open>{"type":"function","data":[]}\<close>.
\<close>

theorem empty_batch:
  assumes "server_ready env"
    and "convert_to_json env buffer ''Message parsing'' = Inr (JObj [(''name'', JStr ''x''), (''data'', JList [])])"
  shows "parse env buffer = Inr []
         \<and> advance env buffer =
             ([Decode buffer,
               Sendall (dumps env (JObj [(''type'', JStr ''function''), (''data'', JList [])])),
               Sendall (postfix env)], None)"
proof -
  have "request_calls (JObj [(''name'', JStr ''x''), (''data'', JList [])]) = Some []"
    by (simp add: request_calls_def)
  from parse_request[OF assms(2) this] have p: "parse env buffer = Inr []" by simp
  with assms(1) show ?thesis
    by (simp add: advance_def send_def serialize_def)
qed

theorem empty_batch_witness:
  \<open>server_ready example_env
   \<and> convert_to_json example_env empty_request ''Message parsing''
       = Inr (JObj [(''name'', JStr ''x''), (''data'', JList [])])
   \<and> advance example_env empty_request =
       ([Decode empty_request, Sendall ''{"type":"function","data":[]}'', Sendall ''<EOF>''], None)\<close>
proof -
  have r: "server_ready example_env" by (simp add: example_env_def)
  have c: "convert_to_json example_env empty_request ''Message parsing''
             = Inr (JObj [(''name'', JStr ''x''), (''data'', JList [])])"
    using example_decode_empty by (simp add: envelope_def)
  from empty_batch[OF r c] r c show ?thesis
    by (simp add: example_env_def)
qed

text \<open>
  Claim C9. On a ready server every call of a batch is checked before any function is
  called: if some entry of \<^verbatim>\<open>data\<close> fails its checks in \<^verbatim>\<open>parse\<close>, no function is
  called at all, the functions of earlier valid calls included.
\<close>

theorem validation_before_invocation:
  assumes "server_ready env"
    and "convert_to_json env buffer ''Message parsing'' = Inr j"
    and "py_getitem j ''data'' = Inr (JList fs)"
    and "f \<in> set fs"
    and "parse_function env ''Message parsing'' f = Inl e"
  shows "invoked (fst (advance env buffer)) = []"
proof -
  from parse_functions_error_if[OF assms(4,5)]
  obtain e' where "parse_functions env ''Message parsing'' fs = Inl e'" by blast
  with assms(2,3) obtain e'' where "parse env buffer = Inl e''"
    by (cases "check_both env ''Message parsing'' ''JSON dict'' root_keys j")
       (simp_all add: parse_def Let_def)
  from advance_parse_fails_no_call[OF assms(1) this] show ?thesis .
qed

theorem validation_before_invocation_witness:
  "server_ready example_env
   \<and> JObj [(''fname'', JStr ''nope'')]
       \<in> set [JObj [(''fname'', JStr ''fetch_galleries'')], JObj [(''fname'', JStr ''nope'')]]
   \<and> parse_function example_env ''Message parsing'' (JObj [(''fname'', JStr ''fetch_galleries'')])
       = Inr (fetch_galleries, [])
   \<and> parse_function example_env ''Message parsing'' (JObj [(''fname'', JStr ''nope'')])
       = Inl (InvalidMessage ''Message parsing'' (''Function not found: '' @ quoted ''nope''))
   \<and> invoked (fst (advance example_env unknown_request)) = []"
proof -
  have u: "parse_function example_env ''Message parsing'' (JObj [(''fname'', JStr ''nope'')])
             = Inl (InvalidMessage ''Message parsing'' (''Function not found: '' @ quoted ''nope''))"
    by (rule parse_function_unknown) (simp_all add: example_api)
  have i: "JObj [(''fname'', JStr ''nope'')]
             \<in> set [JObj [(''fname'', JStr ''fetch_galleries'')], JObj [(''fname'', JStr ''nope'')]]"
    by simp
  from validation_before_invocation[OF example_ready example_decode_unknown py_getitem_envelope i u]
  show ?thesis
    using u by (simp add: example_ready parse_function_plain example_api)
qed

end
